theory Spec2Isabelle
  imports Complex_Main
begin

section \<open>Data model of eye-tracking-pokemon-webapp.py\<close>

text \<open>
  The script keeps its state in module-level globals, classifies gaze coordinates into a
  direction, and drives a PyBoy emulator from a background thread while Flask handlers
  read and write the same globals.

  Numeric values are \<open>real\<close> numbers (the script only subtracts, takes absolute
  values and compares). The handlers are modelled with exact subtraction; Python
  subtracts in binary64, which is exact whenever the difference is representable, and
  the classifier is also given with its subtraction as a parameter, so that the effect
  of rounding can be stated. The four direction strings \<open>"up"\<close>, \<open>"down"\<close>, \<open>"left"\<close>,
  \<open>"right"\<close> are used as an enumeration, and \<open>None\<close> is Python's \<open>None\<close>.
\<close>

datatype direction = Up | Down | Left | Right

fun direction_name :: "direction \<Rightarrow> string" where
  "direction_name Up = ''up''"
| "direction_name Down = ''down''"
| "direction_name Left = ''left''"
| "direction_name Right = ''right''"

text \<open>JSON values as Flask's \<open>request.json\<close> delivers them.\<close>

datatype json =
    JNull
  | JBool bool
  | JNum real
  | JStr string
  | JArray "json list"
  | JObject "(string \<times> json) list"

text \<open>
  A parsed request body that is a dict. \<open>None\<close> at type \<open>py_dict option\<close> stands for a
  request whose \<open>request.json\<close> raises or is not a dict, so that \<open>data.get\<close> raises.
\<close>

type_synonym py_dict = "string \<rightharpoonup> json"

definition dict_get :: "py_dict \<Rightarrow> string \<Rightarrow> json \<Rightarrow> json" where
  "dict_get data k dflt = (case data k of None \<Rightarrow> dflt | Some v \<Rightarrow> v)"

text \<open>
  The value a JSON value has in Python arithmetic: a number is itself, a bool is the int
  0 or 1, anything else makes \<open>x - center_x\<close> raise TypeError (\<open>None\<close> here).
  \<open>JNum\<close> stands for the finite numbers a float holds; an integer too large to convert
  to a float (OverflowError, answered with 400) and the values NaN and Infinity, which
  the JSON parser also accepts, are not represented.
\<close>

fun py_number :: "json \<Rightarrow> real option" where
  "py_number (JNum r) = Some r"
| "py_number (JBool b) = Some (if b then 1 else 0)"
| "py_number _ = None"

text \<open>The emulator collaborator: the WindowEvent codes the script uses, and its calls.\<close>

datatype window_event =
    PRESS_ARROW_UP | PRESS_ARROW_DOWN | PRESS_ARROW_LEFT | PRESS_ARROW_RIGHT
  | RELEASE_ARROW_UP | RELEASE_ARROW_DOWN | RELEASE_ARROW_LEFT | RELEASE_ARROW_RIGHT
  | PRESS_BUTTON_A | PRESS_BUTTON_B | PRESS_BUTTON_START | PRESS_BUTTON_SELECT
  | RELEASE_BUTTON_A | RELEASE_BUTTON_B | RELEASE_BUTTON_START | RELEASE_BUTTON_SELECT

datatype emu_call =
    Set_emulation_speed nat
  | Send_input window_event
  | Tick
  | Stop

text \<open>
  A PyBoy instance is represented by the calls it has completed, in order. Whether a
  call raises is decided by a fault oracle from the history and the call; a call that
  raises leaves the history unchanged.
\<close>

type_synonym pyboy = "emu_call list"
type_synonym fault = "pyboy \<Rightarrow> emu_call \<Rightarrow> bool"

definition no_fault :: fault where
  "no_fault h c = False"

definition tick_fails :: fault where
  "tick_fails h c = (c = Tick)"

text \<open>
  Straight-line emulator calls: run them in order until one raises. The flag is
  \<open>True\<close> when all calls returned.
\<close>

fun emu_seq :: "fault \<Rightarrow> emu_call list \<Rightarrow> pyboy \<Rightarrow> bool \<times> pyboy" where
  "emu_seq F [] h = (True, h)"
| "emu_seq F (c # cs) h = (if F h c then (False, h) else emu_seq F cs (h @ [c]))"

text \<open>The globals (lines 14-18); \<open>game_thread\<close> is never read by the handlers.\<close>

record app_state =
  pyboy_instance :: "pyboy option"
  current_direction :: "direction option"
  last_eye_update :: real
  eye_tracking_enabled :: bool

definition initial_state :: app_state where
  "initial_state =
     \<lparr>pyboy_instance = None, current_direction = None,
      last_eye_update = 0, eye_tracking_enabled = False\<rparr>"

section \<open>Direction classifier\<close>

definition SCREEN_WIDTH :: real where "SCREEN_WIDTH = 1920"
definition SCREEN_HEIGHT :: real where "SCREEN_HEIGHT = 1080"
definition DEAD_ZONE :: real where "DEAD_ZONE = 100"

definition center_x :: real where "center_x = SCREEN_WIDTH / 2"
definition center_y :: real where "center_y = SCREEN_HEIGHT / 2"

definition get_direction_from_coords :: "real \<Rightarrow> real \<Rightarrow> direction option" where
  "get_direction_from_coords x y =
     (if abs (x - center_x) < DEAD_ZONE \<and> abs (y - center_y) < DEAD_ZONE then None
      else
        let dx = x - center_x; dy = y - center_y in
        if abs dx > abs dy then Some (if dx > 0 then Right else Left)
        else Some (if dy > 0 then Down else Up))"

text \<open>
  The same function with the operation that evaluates \<open>x - center_x\<close> and
  \<open>y - center_y\<close> as a parameter: \<open>get_direction_from_coords\<close> is the instance with exact
  subtraction, the interpreter runs the instance with binary64 subtraction.
\<close>

definition get_direction_with :: "(real \<Rightarrow> real \<Rightarrow> real) \<Rightarrow> real \<Rightarrow> real \<Rightarrow> direction option" where
  "get_direction_with sub x y =
     (if abs (sub x center_x) < DEAD_ZONE \<and> abs (sub y center_y) < DEAD_ZONE then None
      else
        let dx = sub x center_x; dy = sub y center_y in
        if abs dx > abs dy then Some (if dx > 0 then Right else Left)
        else Some (if dy > 0 then Down else Up))"

text \<open>
  Binary64 arithmetic on finite values: the exact result is rounded to the nearest
  number with a 53-bit significand (exponent at least -1022, so subnormal numbers
  included), ties going to the even significand. \<open>binary64_sub\<close> is Python's
  subtraction with a float operand: an int operand is first converted to a float,
  which rounds it in the same way and leaves a float as it is, and the difference of
  the two floats is rounded. A coordinate that converts to a float never overflows
  when a centre constant is subtracted; an int beyond the float range, infinities and
  NaN are not represented.
\<close>

definition round_half_even :: "real \<Rightarrow> int" where
  "round_half_even r =
     (let n = \<lfloor>r\<rfloor> in
      if r - of_int n < 1 / 2 then n
      else if 1 / 2 < r - of_int n then n + 1
      else if even n then n else n + 1)"

definition binary64 :: "real \<Rightarrow> real" where
  "binary64 r =
     (if r = 0 then 0
      else
        let e = max \<lfloor>log 2 \<bar>r\<bar>\<rfloor> (- 1022);
            q = 2 powr of_int (e - 52)
        in of_int (round_half_even (r / q)) * q)"

definition binary64_sub :: "real \<Rightarrow> real \<Rightarrow> real" where
  "binary64_sub a b = binary64 (binary64 a - binary64 b)"

section \<open>HTTP handlers\<close>

datatype response =
    Eye_data_ok "string option" json json
  | Control_ok
  | Toggle_ok bool
  | Status_ok (game_running: bool) (status_eye_tracking_enabled: bool)
      (status_current_direction: "string option") (last_update: "real option")
  | Error_400

text \<open>
  \<open>receive_eye_data\<close> (lines 103-128); \<open>now\<close> is the value \<open>time.time()\<close> returns.
  Any exception inside the \<open>try\<close> gives the 400 response and leaves the globals as
  they were.
\<close>

definition receive_eye_data :: "real \<Rightarrow> py_dict option \<Rightarrow> app_state \<Rightarrow> response \<times> app_state" where
  "receive_eye_data now req s =
     (case req of
        None \<Rightarrow> (Error_400, s)
      | Some data \<Rightarrow>
          let x = dict_get data ''x'' (JNum 0);
              y = dict_get data ''y'' (JNum 0)
          in case (py_number x, py_number y) of
               (Some a, Some b) \<Rightarrow>
                 let new_direction = get_direction_from_coords a b;
                     s' = (if new_direction \<noteq> current_direction s
                           then s\<lparr>current_direction := new_direction, last_eye_update := now\<rparr>
                           else s)
                 in (Eye_data_ok (map_option direction_name (current_direction s')) x y, s')
             | _ \<Rightarrow> (Error_400, s))"

text \<open>\<open>direction in ['up', 'down', 'left', 'right']\<close> on the value of \<open>data.get('direction')\<close>.\<close>

definition known_direction :: "json option \<Rightarrow> direction option" where
  "known_direction v =
     (if v = Some (JStr ''up'') then Some Up
      else if v = Some (JStr ''down'') then Some Down
      else if v = Some (JStr ''left'') then Some Left
      else if v = Some (JStr ''right'') then Some Right
      else None)"

text \<open>The emulator calls of the \<open>button\<close> branch (lines 150-165), by \<open>data.get('button')\<close>.\<close>

definition button_calls :: "json option \<Rightarrow> emu_call list" where
  "button_calls v =
     (if v = Some (JStr ''a'') then
        [Send_input PRESS_BUTTON_A, Tick, Send_input RELEASE_BUTTON_A]
      else if v = Some (JStr ''b'') then
        [Send_input PRESS_BUTTON_B, Tick, Send_input RELEASE_BUTTON_B]
      else if v = Some (JStr ''start'') then
        [Send_input PRESS_BUTTON_START, Tick, Send_input RELEASE_BUTTON_START]
      else if v = Some (JStr ''select'') then
        [Send_input PRESS_BUTTON_SELECT, Tick, Send_input RELEASE_BUTTON_SELECT]
      else [])"

text \<open>\<open>control\<close> (lines 130-170).\<close>

definition control :: "fault \<Rightarrow> py_dict option \<Rightarrow> app_state \<Rightarrow> response \<times> app_state" where
  "control F req s =
     (case req of
        None \<Rightarrow> (Error_400, s)
      | Some data \<Rightarrow>
          let action = data ''action'' in
          if action = Some (JStr ''press'') then
            (case known_direction (data ''direction'') of
               Some d \<Rightarrow> (Control_ok, s\<lparr>current_direction := Some d\<rparr>)
             | None \<Rightarrow> (Control_ok, s))
          else if action = Some (JStr ''release'') then
            (Control_ok, s\<lparr>current_direction := None\<rparr>)
          else if action = Some (JStr ''button'') then
            (case pyboy_instance s of
               None \<Rightarrow> (Control_ok, s)
             | Some h \<Rightarrow>
                 (case emu_seq F (button_calls (data ''button'')) h of
                    (True, h') \<Rightarrow> (Control_ok, s\<lparr>pyboy_instance := Some h'\<rparr>)
                  | (False, h') \<Rightarrow> (Error_400, s\<lparr>pyboy_instance := Some h'\<rparr>)))
          else (Control_ok, s))"

text \<open>\<open>toggle_eye_tracking\<close> (lines 172-181) and \<open>status\<close> (lines 183-191).\<close>

definition toggle_eye_tracking :: "app_state \<Rightarrow> response \<times> app_state" where
  "toggle_eye_tracking s =
     (let s' = s\<lparr>eye_tracking_enabled := \<not> eye_tracking_enabled s\<rparr>
      in (Toggle_ok (eye_tracking_enabled s'), s'))"

definition status :: "real \<Rightarrow> app_state \<Rightarrow> response" where
  "status now s =
     Status_ok (pyboy_instance s \<noteq> None)
               (eye_tracking_enabled s)
               (map_option direction_name (current_direction s))
               (if last_eye_update s \<noteq> 0 then Some (now - last_eye_update s) else None)"

section \<open>The game thread\<close>

text \<open>
  \<open>run_game\<close> (lines 46-96) runs on its own thread while the handlers run on Flask's,
  and the loop body names the globals \<open>eye_tracking_enabled\<close> and \<open>current_direction\<close>
  afresh at every test. \<open>rd k\<close> is the shared state as the k-th such read of one
  iteration finds it: read 0 and 1 are the guard of line 62, reads 2-5 the press chain
  (lines 64-71), reads 6-9 the release chain (lines 77-84). A direction that is not
  \<open>None\<close> is a non-empty string, hence true in the guard.
\<close>

definition press_chain :: "(nat \<Rightarrow> app_state) \<Rightarrow> emu_call list" where
  "press_chain rd =
     (if current_direction (rd 2) = Some Up then [Send_input PRESS_ARROW_UP]
      else if current_direction (rd 3) = Some Down then [Send_input PRESS_ARROW_DOWN]
      else if current_direction (rd 4) = Some Left then [Send_input PRESS_ARROW_LEFT]
      else if current_direction (rd 5) = Some Right then [Send_input PRESS_ARROW_RIGHT]
      else [])"

definition release_chain :: "(nat \<Rightarrow> app_state) \<Rightarrow> emu_call list" where
  "release_chain rd =
     (if current_direction (rd 6) = Some Up then [Send_input RELEASE_ARROW_UP]
      else if current_direction (rd 7) = Some Down then [Send_input RELEASE_ARROW_DOWN]
      else if current_direction (rd 8) = Some Left then [Send_input RELEASE_ARROW_LEFT]
      else if current_direction (rd 9) = Some Right then [Send_input RELEASE_ARROW_RIGHT]
      else [])"

text \<open>The emulator calls one pass through the loop body issues, in program order.\<close>

definition loop_calls :: "(nat \<Rightarrow> app_state) \<Rightarrow> emu_call list" where
  "loop_calls rd =
     (if eye_tracking_enabled (rd 0) \<and> current_direction (rd 1) \<noteq> None
      then press_chain rd @ [Tick] @ release_chain rd
      else [])
     @ [Tick]"

definition loop_iteration :: "fault \<Rightarrow> (nat \<Rightarrow> app_state) \<Rightarrow> pyboy \<Rightarrow> bool \<times> pyboy" where
  "loop_iteration F rd h = emu_seq F (loop_calls rd) h"

text \<open>
  \<open>while True\<close> with fuel: \<open>rds i\<close> are the reads of iteration \<open>i\<close>. \<open>None\<close> means the
  loop is still running when the fuel is spent; \<open>Some h\<close> that an emulator call raised
  and left the loop with the emulator at \<open>h\<close>.
\<close>

fun game_loop :: "fault \<Rightarrow> (nat \<Rightarrow> nat \<Rightarrow> app_state) \<Rightarrow> nat \<Rightarrow> nat \<Rightarrow> pyboy \<Rightarrow> pyboy option" where
  "game_loop F rds 0 i h = None"
| "game_loop F rds (Suc fuel) i h =
     (case loop_iteration F (rds i) h of
        (True, h') \<Rightarrow> game_loop F rds fuel (Suc i) h'
      | (False, h') \<Rightarrow> Some h')"

text \<open>
  \<open>run_game\<close>: \<open>rom_ok\<close> says whether the \<open>PyBoy(...)\<close> constructor returns. The result is
  \<open>None\<close> while the thread is still looping, and otherwise the value the global
  \<open>pyboy_instance\<close> holds when the thread has left \<open>try/except/finally\<close>. The
  \<open>except\<close> clause only prints; the \<open>finally\<close> clause calls \<open>stop()\<close> when the global
  is set, and nothing assigns the global again.
\<close>

definition run_game :: "fault \<Rightarrow> bool \<Rightarrow> (nat \<Rightarrow> nat \<Rightarrow> app_state) \<Rightarrow> nat \<Rightarrow> pyboy option option" where
  "run_game F rom_ok rds fuel =
     (if \<not> rom_ok then Some None
      else
        case emu_seq F [Set_emulation_speed 1] [] of
          (False, h) \<Rightarrow> Some (Some (snd (emu_seq F [Stop] h)))
        | (True, h) \<Rightarrow>
            (case game_loop F rds fuel 0 h of
               None \<Rightarrow> None
             | Some h' \<Rightarrow> Some (Some (snd (emu_seq F [Stop] h')))))"

section \<open>Sequences of operations on the shared state\<close>

text \<open>
  The operations that touch the globals: the four JSON endpoints, and the game thread,
  which only ever assigns or drives \<open>pyboy_instance\<close>. Each is paired with the clock
  reading at which it is handled.
\<close>

datatype request =
    Eye_data "py_dict option"
  | Control "py_dict option"
  | Toggle_eye_tracking
  | Status
  | Game_thread "pyboy option"

type_synonym event = "real \<times> request"

fun step :: "fault \<Rightarrow> event \<Rightarrow> app_state \<Rightarrow> app_state" where
  "step F (t, Eye_data req) s = snd (receive_eye_data t req s)"
| "step F (t, Control req) s = snd (control F req s)"
| "step F (t, Toggle_eye_tracking) s = snd (toggle_eye_tracking s)"
| "step F (t, Status) s = s"
| "step F (t, Game_thread p) s = s\<lparr>pyboy_instance := p\<rparr>"

fun exec :: "fault \<Rightarrow> event list \<Rightarrow> app_state \<Rightarrow> app_state" where
  "exec F [] s = s"
| "exec F (e # es) s = exec F es (step F e s)"

section \<open>Reference notions used to state the properties\<close>

text \<open>The button mapped to a direction: its press and its release event.\<close>

fun arrow_press :: "direction \<Rightarrow> window_event" where
  "arrow_press Up = PRESS_ARROW_UP"
| "arrow_press Down = PRESS_ARROW_DOWN"
| "arrow_press Left = PRESS_ARROW_LEFT"
| "arrow_press Right = PRESS_ARROW_RIGHT"

fun arrow_release :: "direction \<Rightarrow> window_event" where
  "arrow_release Up = RELEASE_ARROW_UP"
| "arrow_release Down = RELEASE_ARROW_DOWN"
| "arrow_release Left = RELEASE_ARROW_LEFT"
| "arrow_release Right = RELEASE_ARROW_RIGHT"

text \<open>
  The GazePoint a request delivers: a POST /eye_data whose body is a dict with numeric
  \<open>x\<close> and \<open>y\<close> (each 0 when absent). Other requests deliver none.
\<close>

fun gaze_point :: "request \<Rightarrow> (real \<times> real) option" where
  "gaze_point (Eye_data (Some data)) =
     (case (py_number (dict_get data ''x'' (JNum 0)), py_number (dict_get data ''y'' (JNum 0))) of
        (Some a, Some b) \<Rightarrow> Some (a, b)
      | _ \<Rightarrow> None)"
| "gaze_point _ = None"

text \<open>The most recently received GazePoint of a sequence (\<open>p\<close> before it starts).\<close>

fun last_gaze_point :: "(real \<times> real) option \<Rightarrow> event list \<Rightarrow> (real \<times> real) option" where
  "last_gaze_point p [] = p"
| "last_gaze_point p (e # es) =
     last_gaze_point (case gaze_point (snd e) of None \<Rightarrow> p | Some q \<Rightarrow> Some q) es"

text \<open>The classifier's output for an optional point, \<open>None\<close> when there is no point.\<close>

definition classified :: "(real \<times> real) option \<Rightarrow> direction option" where
  "classified p = (case p of None \<Rightarrow> None | Some (x, y) \<Rightarrow> get_direction_from_coords x y)"

text \<open>
  The value a request assigns to the current direction, when it assigns one: the
  classification of a GazePoint, the direction of a manual press that names one of the
  four directions, \<open>None\<close> for a manual release.
\<close>

fun direction_write :: "request \<Rightarrow> direction option option" where
  "direction_write (Eye_data req) =
     map_option (\<lambda>(x, y). get_direction_from_coords x y) (gaze_point (Eye_data req))"
| "direction_write (Control (Some data)) =
     (if data ''action'' = Some (JStr ''press'')
      then map_option Some (known_direction (data ''direction''))
      else if data ''action'' = Some (JStr ''release'') then Some None
      else None)"
| "direction_write _ = None"

text \<open>The value of the most recent assignment in a sequence (\<open>d\<close> when there is none).\<close>

fun last_direction_write :: "direction option \<Rightarrow> event list \<Rightarrow> direction option" where
  "last_direction_write d [] = d"
| "last_direction_write d (e # es) =
     last_direction_write (case direction_write (snd e) of None \<Rightarrow> d | Some v \<Rightarrow> v) es"

fun is_control :: "request \<Rightarrow> bool" where
  "is_control (Control req) = True"
| "is_control _ = False"

fun is_eye_data :: "request \<Rightarrow> bool" where
  "is_eye_data (Eye_data req) = True"
| "is_eye_data _ = False"

text \<open>
  The events of a run whose handling left the current direction different from what it
  was, in order; \<open>eye_changes\<close> keeps those that are POST /eye_data requests.
\<close>

fun direction_changes :: "fault \<Rightarrow> app_state \<Rightarrow> event list \<Rightarrow> event list" where
  "direction_changes F s [] = []"
| "direction_changes F s (e # es) =
     (if current_direction (step F e s) \<noteq> current_direction s then [e] else [])
     @ direction_changes F (step F e s) es"

definition eye_changes :: "fault \<Rightarrow> app_state \<Rightarrow> event list \<Rightarrow> event list" where
  "eye_changes F s es = filter (\<lambda>e. is_eye_data (snd e)) (direction_changes F s es)"

text \<open>Seconds elapsed at \<open>now\<close> since the last of some events, \<open>None\<close> when there is none.\<close>

definition seconds_since_last :: "real \<Rightarrow> event list \<Rightarrow> real option" where
  "seconds_since_last now cs = (case cs of [] \<Rightarrow> None | _ \<Rightarrow> Some (now - fst (last cs)))"

section \<open>Classifier properties\<close>

lemma center_values: "center_x = 960" "center_y = 540"
  by (simp_all add: center_x_def center_y_def SCREEN_WIDTH_def SCREEN_HEIGHT_def)

text \<open>
  Claim C2. Every coordinate whose horizontal and vertical distances from the screen
  centre are both below the dead-zone radius is classified as \<open>None\<close>. On the
  configured 1920x1080 screen with radius 100 the centre is (960, 540); (960, 540) and
  (960, 541) give \<open>None\<close>, (1200, 540) gives Right and (960, 300) gives Up.
\<close>

theorem dead_zone_is_none:
  "(abs (x - center_x) < DEAD_ZONE \<and> abs (y - center_y) < DEAD_ZONE
      \<longrightarrow> get_direction_from_coords x y = None)
   \<and> center_x = SCREEN_WIDTH / 2 \<and> center_y = SCREEN_HEIGHT / 2
   \<and> SCREEN_WIDTH = 1920 \<and> SCREEN_HEIGHT = 1080 \<and> DEAD_ZONE = 100
   \<and> get_direction_from_coords 960 540 = None
   \<and> get_direction_from_coords 960 541 = None
   \<and> get_direction_from_coords 1200 540 = Some Right
   \<and> get_direction_from_coords 960 300 = Some Up"
  by (simp add: get_direction_from_coords_def center_values DEAD_ZONE_def
      SCREEN_WIDTH_def SCREEN_HEIGHT_def)

theorem dead_zone_is_none_witness:
  "abs (1000 - center_x) < DEAD_ZONE \<and> abs (500 - center_y) < DEAD_ZONE
   \<and> get_direction_from_coords 1000 500 = None"
proof -
  have h: "abs (1000 - center_x) < DEAD_ZONE \<and> abs (500 - center_y) < DEAD_ZONE"
    by (simp add: center_values DEAD_ZONE_def)
  from dead_zone_is_none [of 1000 500] h show ?thesis by blast
qed

subsection \<open>Rounding of the differences\<close>

lemma get_direction_with_exact: "get_direction_with (-) x y = get_direction_from_coords x y"
  by (simp add: get_direction_with_def get_direction_from_coords_def)

lemma binary64_in_binade:
  assumes "2 powr of_int e \<le> \<bar>r\<bar>" and "\<bar>r\<bar> < 2 powr of_int (e + 1)" and "- 1022 \<le> e"
  shows "binary64 r = of_int (round_half_even (r / 2 powr of_int (e - 52))) * 2 powr of_int (e - 52)"
proof -
  have "0 < (2::real) powr of_int e" by simp
  with assms(1) have pos: "0 < \<bar>r\<bar>" by linarith
  then have nz: "r \<noteq> 0" by auto
  have "\<lfloor>log 2 \<bar>r\<bar>\<rfloor> = e"
    using floor_log_eq_powr_iff [of "\<bar>r\<bar>" 2 e] pos assms(1,2) by simp
  with nz assms(3) show ?thesis
    by (simp add: binary64_def Let_def max_def)
qed

lemma binary64_530: "binary64 530 = 530"
proof -
  have "binary64 530 = of_int (round_half_even (530 / 2 powr of_int (9 - 52))) * 2 powr of_int (9 - 52)"
    by (rule binary64_in_binade) simp_all
  also have "\<dots> = 530"
    by (simp add: round_half_even_def powr_minus)
  finally show ?thesis .
qed

lemma binary64_540: "binary64 540 = 540"
proof -
  have "binary64 540 = of_int (round_half_even (540 / 2 powr of_int (9 - 52))) * 2 powr of_int (9 - 52)"
    by (rule binary64_in_binade) simp_all
  also have "\<dots> = 540"
    by (simp add: round_half_even_def powr_minus)
  finally show ?thesis .
qed

lemma binary64_960: "binary64 960 = 960"
proof -
  have "binary64 960 = of_int (round_half_even (960 / 2 powr of_int (9 - 52))) * 2 powr of_int (9 - 52)"
    by (rule binary64_in_binade) simp_all
  also have "\<dots> = 960"
    by (simp add: round_half_even_def powr_minus)
  finally show ?thesis .
qed

lemma binary64_1070: "binary64 1070 = 1070"
proof -
  have "binary64 1070 = of_int (round_half_even (1070 / 2 powr of_int (10 - 52))) * 2 powr of_int (10 - 52)"
    by (rule binary64_in_binade) simp_all
  also have "\<dots> = 1070"
    by (simp add: round_half_even_def powr_minus)
  finally show ?thesis .
qed

text \<open>The number 430 - 2^-44, written 429.99999999999994, is a binary64 value.\<close>

lemma binary64_below_430: "binary64 (430 - 1 / 2 ^ 44) = 430 - 1 / 2 ^ 44"
proof -
  have "binary64 (430 - 1 / 2 ^ 44)
      = of_int (round_half_even ((430 - 1 / 2 ^ 44) / 2 powr of_int (8 - 52))) * 2 powr of_int (8 - 52)"
    by (rule binary64_in_binade) simp_all
  also have "\<dots> = 430 - 1 / 2 ^ 44"
    by (simp add: round_half_even_def powr_minus)
  finally show ?thesis .
qed

text \<open>Its distance from 960 lies halfway between two binary64 values and rounds to 530.\<close>

lemma binary64_tie: "binary64 (- 530 - 1 / 2 ^ 44) = - 530"
proof -
  have "binary64 (- 530 - 1 / 2 ^ 44)
      = of_int (round_half_even ((- 530 - 1 / 2 ^ 44) / 2 powr of_int (9 - 52))) * 2 powr of_int (9 - 52)"
    by (rule binary64_in_binade) simp_all
  also have "\<dots> = - 530"
    by (simp add: round_half_even_def powr_minus)
  finally show ?thesis .
qed

lemma binary64_sub_below_430: "binary64_sub (430 - 1 / 2 ^ 44) center_x = - 530"
proof -
  have "(430 - 1 / 2 ^ 44) - 960 = - 530 - 1 / (2 ^ 44 :: real)" by simp
  then show ?thesis
    unfolding binary64_sub_def center_values binary64_below_430 binary64_960
    by (simp only: binary64_tie)
qed

lemma binary64_sub_1070: "binary64_sub 1070 center_y = 530"
proof -
  have "1070 - 540 = (530 :: real)" by simp
  then show ?thesis
    unfolding binary64_sub_def center_values binary64_1070 binary64_540
    by (simp only: binary64_530)
qed

text \<open>
  Claim C1, read with dx = x - center_x and dy = y - center_y as exact differences,
  fails under binary64 subtraction. The coordinate x = 430 - 2^-44 (the float written
  429.99999999999994) with y = 1070 lies outside the dead zone and has |dx| > |dy| with
  dx < 0, so the claim gives Left, as the classifier with exact subtraction does. In
  binary64 the difference x - 960 is a tie and rounds to -530, the point falls on the
  diagonal, and the function returns Down.
\<close>

theorem rounding_puts_point_on_diagonal:
  "\<not> (abs ((430 - 1 / 2 ^ 44) - center_x) < DEAD_ZONE \<and> abs (1070 - center_y) < DEAD_ZONE)
   \<and> abs ((430 - 1 / 2 ^ 44) - center_x) > abs (1070 - center_y)
   \<and> \<not> (430 - 1 / 2 ^ 44) - center_x > 0
   \<and> get_direction_from_coords (430 - 1 / 2 ^ 44) 1070 = Some Left
   \<and> get_direction_with binary64_sub (430 - 1 / 2 ^ 44) 1070 = Some Down"
proof -
  note dx = binary64_sub_below_430
  note dy = binary64_sub_1070
  have code: "get_direction_with binary64_sub (430 - 1 / 2 ^ 44) 1070 = Some Down"
    unfolding get_direction_with_def Let_def dx dy by (simp add: DEAD_ZONE_def)
  have exact: "get_direction_from_coords (430 - 1 / 2 ^ 44) 1070 = Some Left"
    by (simp add: get_direction_from_coords_def center_values DEAD_ZONE_def)
  from code exact show ?thesis
    by (simp add: center_values DEAD_ZONE_def)
qed

text \<open>
  Claim C1, amended. For every coordinate (x, y) outside the dead zone, with dx and dy
  the values that the subtractions x - center_x and y - center_y evaluate to in the
  program (binary64 results, which may be rounded): when |dx| > |dy| the result is Right
  for dx > 0 and Left otherwise; when |dx| <= |dy| it is Down for dy > 0 and Up
  otherwise; in particular when |dx| = |dy| it is Up or Down, never Left or Right. The
  dead zone is tested on the same computed values. This holds whatever operation
  computes the differences, so for binary64 subtraction in particular.
\<close>

theorem classify_computed_differences:
  assumes "\<not> (abs (sub x center_x) < DEAD_ZONE \<and> abs (sub y center_y) < DEAD_ZONE)"
  shows "(abs (sub x center_x) > abs (sub y center_y) \<longrightarrow>
            get_direction_with sub x y = Some (if sub x center_x > 0 then Right else Left))
       \<and> (abs (sub x center_x) \<le> abs (sub y center_y) \<longrightarrow>
            get_direction_with sub x y = Some (if sub y center_y > 0 then Down else Up))
       \<and> (abs (sub x center_x) = abs (sub y center_y) \<longrightarrow>
            get_direction_with sub x y \<in> {Some Up, Some Down})"
  using assms by (auto simp add: get_direction_with_def Let_def)

theorem classify_computed_differences_witness:
  "abs (binary64_sub (430 - 1 / 2 ^ 44) center_x) = abs (binary64_sub 1070 center_y)
   \<and> get_direction_with binary64_sub (430 - 1 / 2 ^ 44) 1070 = Some Down"
proof -
  note dx = binary64_sub_below_430
  note dy = binary64_sub_1070
  have h: "\<not> (abs (binary64_sub (430 - 1 / 2 ^ 44) center_x) < DEAD_ZONE
             \<and> abs (binary64_sub 1070 center_y) < DEAD_ZONE)"
    by (simp add: dx dy DEAD_ZONE_def)
  have eq: "abs (binary64_sub (430 - 1 / 2 ^ 44) center_x) = abs (binary64_sub 1070 center_y)"
    unfolding dx dy by simp
  have pos: "binary64_sub 1070 center_y > 0"
    unfolding dy by simp
  from classify_computed_differences [of binary64_sub "430 - 1 / 2 ^ 44" 1070] h eq pos
  show ?thesis by auto
qed

section \<open>The toggle endpoint\<close>

text \<open>
  Claim C6. Toggling twice returns the tracking flag (indeed the whole state) to what it
  was, whatever the flag's value; and one toggle from the initial state, where tracking
  is disabled, reports \<open>eye_tracking_enabled = true\<close> in its own response and in the
  response of a following GET /status.
\<close>

theorem toggle_twice:
  "eye_tracking_enabled (snd (toggle_eye_tracking (snd (toggle_eye_tracking s))))
     = eye_tracking_enabled s
   \<and> snd (toggle_eye_tracking (snd (toggle_eye_tracking s))) = s
   \<and> eye_tracking_enabled initial_state = False
   \<and> fst (toggle_eye_tracking initial_state) = Toggle_ok True
   \<and> status_eye_tracking_enabled (status now (snd (toggle_eye_tracking initial_state))) = True"
  by (simp add: toggle_eye_tracking_def Let_def status_def initial_state_def)

text \<open>
  Claim C10. The toggle operation leaves the current direction and the last-update
  timestamp (and the emulator instance) as they were, in every state.
\<close>

theorem toggle_frame:
  "current_direction (snd (toggle_eye_tracking s)) = current_direction s
   \<and> last_eye_update (snd (toggle_eye_tracking s)) = last_eye_update s
   \<and> pyboy_instance (snd (toggle_eye_tracking s)) = pyboy_instance s"
  by (simp add: toggle_eye_tracking_def Let_def)

section \<open>The input loop\<close>

lemma emu_seq_no_fault: "emu_seq no_fault cs h = (True, h @ cs)"
  by (induction cs arbitrary: h) (simp_all add: no_fault_def)

lemma loop_calls_stable:
  assumes "\<forall>k. eye_tracking_enabled (rd k) \<and> current_direction (rd k) = Some d"
  shows "loop_calls rd = [Send_input (arrow_press d), Tick, Send_input (arrow_release d), Tick]"
  using assms by (cases d) (simp_all add: loop_calls_def press_chain_def release_chain_def)

text \<open>
  An iteration whose reads all find tracking enabled and the same direction d sends the
  press event of d's button, ticks, sends the release event of d and ticks once more;
  whatever the reads return, the calls of an iteration end with one unconditional tick.
\<close>

lemma loop_iteration_undisturbed:
  assumes "\<forall>k. eye_tracking_enabled (rd k) \<and> current_direction (rd k) = Some d"
  shows "loop_calls rd = [Send_input (arrow_press d), Tick, Send_input (arrow_release d), Tick]
       \<and> loop_iteration no_fault rd h
           = (True, h @ [Send_input (arrow_press d), Tick, Send_input (arrow_release d), Tick])
       \<and> (\<forall>rd'. \<exists>before. loop_calls rd' = before @ [Tick])
       \<and> (\<forall>rd' h'. \<exists>before. loop_iteration no_fault rd' h' = (True, h' @ before @ [Tick]))"
proof -
  have a: "loop_calls rd = [Send_input (arrow_press d), Tick, Send_input (arrow_release d), Tick]"
    by (rule loop_calls_stable [OF assms])
  have b: "\<exists>before. loop_calls rd' = before @ [Tick]" for rd'
    by (simp add: loop_calls_def)
  have c: "\<exists>before. loop_iteration no_fault rd' h' = (True, h' @ before @ [Tick])" for rd' h'
    using b [of rd'] by (auto simp add: loop_iteration_def emu_seq_no_fault)
  from a b c show ?thesis
    by (simp add: loop_iteration_def emu_seq_no_fault del: emu_seq.simps)
qed

text \<open>
  Claim C4 says that in every iteration with tracking enabled and direction d the loop
  presses d's button, ticks, and releases the button of that same d. The loop body does
  not keep d: it names the global \<open>current_direction\<close> again after the tick, under the
  comment "Release the button", so a request handled during the tick changes which
  button is released. With Left at the guard and the press chain, and Right written by
  a handler before the release chain, the loop presses LEFT and releases RIGHT; with
  \<open>None\<close> written (a manual release) it presses LEFT and releases nothing. LEFT stays
  held in the emulator.
\<close>

theorem release_follows_later_read:
  "loop_calls (\<lambda>k. initial_state\<lparr>eye_tracking_enabled := True,
                      current_direction := (if k < 6 then Some Left else Some Right)\<rparr>)
     = [Send_input PRESS_ARROW_LEFT, Tick, Send_input RELEASE_ARROW_RIGHT, Tick]
   \<and> loop_calls (\<lambda>k. initial_state\<lparr>eye_tracking_enabled := True,
                      current_direction := (if k < 6 then Some Left else None)\<rparr>)
     = [Send_input PRESS_ARROW_LEFT, Tick, Tick]"
  by (simp add: loop_calls_def press_chain_def release_chain_def)

section \<open>The manual override endpoint\<close>

text \<open>
  Claim C7, as stated, covers every request with an unrecognised action, direction or
  button value, and fails for a release: \<open>{action: "release", direction: null}\<close>, which
  the page sends on every mouse-up, carries a direction that is not a recognised member,
  yet the request is not ignored: it clears the current direction.
\<close>

theorem release_clears_whatever_direction_says:
  "known_direction ([''action'' \<mapsto> JStr ''release'', ''direction'' \<mapsto> JNull] ''direction'') = None
   \<and> control no_fault (Some [''action'' \<mapsto> JStr ''release'', ''direction'' \<mapsto> JNull])
        (initial_state\<lparr>current_direction := Some Right\<rparr>)
      = (Control_ok, initial_state\<lparr>current_direction := None\<rparr>)
   \<and> initial_state\<lparr>current_direction := None\<rparr> \<noteq> initial_state\<lparr>current_direction := Some Right\<rparr>"
  by (simp add: control_def known_direction_def initial_state_def)


text \<open>
  Claim C7, amended. A POST /control request is silently ignored when the value its
  action dispatches on is not recognised: an action other than press, release and
  button; a press whose direction is not one of up, down, left, right; a button action
  whose button is not one of a, b, start, select. The globals are unchanged (the
  emulator history among them) and the response is \<open>{status: "success"}\<close>. This holds
  for every fault oracle, also one under which any emulator call would raise, so no call
  is attempted. In particular \<open>{action: "button", button: "a"}\<close> with no emulator
  instance answers success and touches nothing.
\<close>

theorem control_ignores_unknown:
  assumes "data ''action'' \<notin> {Some (JStr ''press''), Some (JStr ''release''), Some (JStr ''button'')}
         \<or> (data ''action'' = Some (JStr ''press'')
              \<and> data ''direction'' \<notin> {Some (JStr ''up''), Some (JStr ''down''),
                                        Some (JStr ''left''), Some (JStr ''right'')})
         \<or> (data ''action'' = Some (JStr ''button'')
              \<and> data ''button'' \<notin> {Some (JStr ''a''), Some (JStr ''b''),
                                     Some (JStr ''start''), Some (JStr ''select'')})"
  shows "control F (Some data) s = (Control_ok, s)
       \<and> control F (Some [''action'' \<mapsto> JStr ''button'', ''button'' \<mapsto> JStr ''a''])
                   (s\<lparr>pyboy_instance := None\<rparr>)
           = (Control_ok, s\<lparr>pyboy_instance := None\<rparr>)"
proof -
  have 1: "control F (Some data) s = (Control_ok, s)"
    using assms
    by (auto simp add: control_def Let_def known_direction_def button_calls_def
        split: option.splits)
  have 2: "control F (Some [''action'' \<mapsto> JStr ''button'', ''button'' \<mapsto> JStr ''a''])
                   (s\<lparr>pyboy_instance := None\<rparr>)
           = (Control_ok, s\<lparr>pyboy_instance := None\<rparr>)"
    by (simp add: control_def Let_def)
  from 1 2 show ?thesis by simp
qed

theorem control_ignores_unknown_witness:
  "[''action'' \<mapsto> JStr ''press'', ''direction'' \<mapsto> JStr ''sideways''] ''action''
      = Some (JStr ''press'')
   \<and> control no_fault (Some [''action'' \<mapsto> JStr ''press'', ''direction'' \<mapsto> JStr ''sideways''])
       (initial_state\<lparr>current_direction := Some Right\<rparr>)
     = (Control_ok, initial_state\<lparr>current_direction := Some Right\<rparr>)"
proof -
  have h: "[''action'' \<mapsto> JStr ''press'', ''direction'' \<mapsto> JStr ''sideways''] ''action''
             = Some (JStr ''press'')
           \<and> [''action'' \<mapsto> JStr ''press'', ''direction'' \<mapsto> JStr ''sideways''] ''direction''
             \<notin> {Some (JStr ''up''), Some (JStr ''down''),
                  Some (JStr ''left''), Some (JStr ''right'')}"
    by simp
  have "control no_fault (Some [''action'' \<mapsto> JStr ''press'', ''direction'' \<mapsto> JStr ''sideways''])
       (initial_state\<lparr>current_direction := Some Right\<rparr>)
     = (Control_ok, initial_state\<lparr>current_direction := Some Right\<rparr>)"
    by (rule conjunct1 [OF control_ignores_unknown [OF disjI2, OF disjI1, OF h]])
  with h show ?thesis by blast
qed

section \<open>The gaze endpoint\<close>

lemma receive_eye_data_numeric:
  assumes "py_number (dict_get data ''x'' (JNum 0)) = Some a"
      and "py_number (dict_get data ''y'' (JNum 0)) = Some b"
  shows "receive_eye_data now (Some data) s =
           (Eye_data_ok (map_option direction_name (get_direction_from_coords a b))
              (dict_get data ''x'' (JNum 0)) (dict_get data ''y'' (JNum 0)),
            s\<lparr>current_direction := get_direction_from_coords a b,
              last_eye_update := (if get_direction_from_coords a b \<noteq> current_direction s
                                  then now else last_eye_update s)\<rparr>)"
proof (cases "get_direction_from_coords a b = current_direction s")
  case True
  then show ?thesis using assms by (simp add: receive_eye_data_def Let_def)
next
  case False
  then show ?thesis using assms by (simp add: receive_eye_data_def Let_def)
qed




section \<open>Which operation determines the current direction\<close>

lemma receive_eye_data_no_point:
  "gaze_point (Eye_data req) = None \<Longrightarrow> receive_eye_data t req s = (Error_400, s)"
  by (cases req) (auto simp add: receive_eye_data_def Let_def split: option.splits)

lemma receive_eye_data_point:
  assumes "gaze_point (Eye_data req) = Some (a, b)"
  shows "snd (receive_eye_data t req s) =
           s\<lparr>current_direction := get_direction_from_coords a b,
             last_eye_update := (if get_direction_from_coords a b \<noteq> current_direction s
                                 then t else last_eye_update s)\<rparr>"
proof (cases req)
  case None
  with assms show ?thesis by simp
next
  case (Some data)
  with assms have "py_number (dict_get data ''x'' (JNum 0)) = Some a"
    "py_number (dict_get data ''y'' (JNum 0)) = Some b"
    by (auto split: option.splits)
  from receive_eye_data_numeric [OF this] Some show ?thesis by simp
qed

lemma control_direction:
  "current_direction (snd (control F req s)) =
     (case direction_write (Control req) of None \<Rightarrow> current_direction s | Some v \<Rightarrow> v)"
proof (cases req)
  case None
  then show ?thesis by (simp add: control_def)
next
  case (Some data)
  then show ?thesis
    by (simp add: control_def Let_def split: option.splits prod.splits bool.splits)
qed

lemma control_last_eye_update: "last_eye_update (snd (control F req s)) = last_eye_update s"
  by (cases req) (simp_all add: control_def Let_def split: option.splits prod.splits bool.splits)

lemma step_direction:
  "current_direction (step F e s) =
     (case direction_write (snd e) of None \<Rightarrow> current_direction s | Some v \<Rightarrow> v)"
proof (cases e)
  case (Pair t r)
  show ?thesis
  proof (cases r)
    case (Eye_data req)
    show ?thesis
    proof (cases "gaze_point (Eye_data req)")
      case None
      with Pair Eye_data show ?thesis by (simp add: receive_eye_data_no_point)
    next
      case (Some p)
      obtain a b where "p = (a, b)" by (cases p)
      with Some Pair Eye_data show ?thesis by (simp add: receive_eye_data_point)
    qed
  next
    case (Control req)
    with Pair show ?thesis by (simp add: control_direction)
  next
    case Toggle_eye_tracking
    with Pair show ?thesis by (simp add: toggle_eye_tracking_def Let_def)
  next
    case Status
    with Pair show ?thesis by simp
  next
    case (Game_thread p)
    with Pair show ?thesis by simp
  qed
qed

lemma exec_direction:
  "current_direction (exec F es s) = last_direction_write (current_direction s) es"
  by (induction es arbitrary: s) (simp_all add: step_direction)

lemma last_write_without_control:
  assumes "\<forall>e \<in> set es. \<not> is_control (snd e)" and "d = classified p"
  shows "last_direction_write d es = classified (last_gaze_point p es)"
  using assms
proof (induction es arbitrary: d p)
  case Nil
  then show ?case by simp
next
  case (Cons e es)
  obtain t r where e: "e = (t, r)" by (cases e)
  from Cons.prems have nc: "\<not> is_control r" and rest: "\<forall>e \<in> set es. \<not> is_control (snd e)"
    by (simp_all add: e)
  have "(case direction_write r of None \<Rightarrow> d | Some v \<Rightarrow> v)
          = classified (case gaze_point r of None \<Rightarrow> p | Some q \<Rightarrow> Some q)"
    using nc Cons.prems(2)
    by (cases r) (auto simp add: classified_def split: option.splits)
  from Cons.IH [OF rest this] show ?case by (simp add: e)
qed

text \<open>
  Claim C3, as stated, fails: a manual POST /control press after a gaze update
  overwrites the direction. After the point (1200, 540), classified Right, a manual
  press of up leaves the current direction Up, while the most recently received
  GazePoint is still (1200, 540).
\<close>

theorem manual_press_overrides_gaze:
  "current_direction
     (exec no_fault
        [(1, Eye_data (Some [''x'' \<mapsto> JNum 1200, ''y'' \<mapsto> JNum 540])),
         (2, Control (Some [''action'' \<mapsto> JStr ''press'', ''direction'' \<mapsto> JStr ''up'']))]
        initial_state) = Some Up
   \<and> classified (last_gaze_point None
        [(1, Eye_data (Some [''x'' \<mapsto> JNum 1200, ''y'' \<mapsto> JNum 540])),
         (2, Control (Some [''action'' \<mapsto> JStr ''press'', ''direction'' \<mapsto> JStr ''up'']))])
      = Some Right"
proof -
  have r: "get_direction_from_coords 1200 540 = Some Right"
    by (simp add: get_direction_from_coords_def center_values DEAD_ZONE_def)
  show ?thesis
    by (simp add: exec_direction initial_state_def classified_def dict_get_def r known_direction_def
        del: exec.simps)
qed

text \<open>
  Claim C3, amended. After every sequence of operations the current direction is the
  value assigned by the most recent operation that assigns it: the classifier's output
  for the GazePoint of a POST /eye_data (\<open>None\<close> inside the dead zone), the direction
  of a POST /control press naming one of the four directions, or \<open>None\<close> for a
  POST /control release; it keeps its earlier value (\<open>None\<close> initially) when there is no
  such operation. Hence, as long as no POST /control request is handled, it is the
  classifier's output for the most recently received GazePoint, or \<open>None\<close> if none was
  received. In particular, after POST /eye_data with x = 1200 and y = 540, GET /status
  reports \<open>current_direction = "right"\<close>.
\<close>

theorem current_direction_last_write:
  "current_direction (exec F es s) = last_direction_write (current_direction s) es
   \<and> ((\<forall>e \<in> set es. \<not> is_control (snd e)) \<longrightarrow>
        current_direction (exec F es initial_state) = classified (last_gaze_point None es))
   \<and> status_current_direction
        (status now (exec F [(t, Eye_data (Some [''x'' \<mapsto> JNum 1200, ''y'' \<mapsto> JNum 540]))]
           initial_state))
       = Some ''right''"
proof -
  have 1: "current_direction (exec F es s) = last_direction_write (current_direction s) es"
    by (rule exec_direction)
  have 2: "current_direction (exec F es initial_state) = classified (last_gaze_point None es)"
    if "\<forall>e \<in> set es. \<not> is_control (snd e)"
    using last_write_without_control [OF that, of "current_direction initial_state" None]
    by (simp add: exec_direction classified_def initial_state_def)
  have 3: "get_direction_from_coords 1200 540 = Some Right"
    by (simp add: get_direction_from_coords_def center_values DEAD_ZONE_def)
  have 4: "status_current_direction
        (status now (exec F [(t, Eye_data (Some [''x'' \<mapsto> JNum 1200, ''y'' \<mapsto> JNum 540]))]
           initial_state))
       = Some ''right''"
    by (simp add: status_def exec_direction dict_get_def 3 initial_state_def del: exec.simps)
  from 1 2 4 show ?thesis by blast
qed

theorem current_direction_last_write_witness:
  "\<not> is_control (snd (2::real, Toggle_eye_tracking))
   \<and> current_direction
       (exec no_fault [(1, Eye_data (Some [''x'' \<mapsto> JNum 960, ''y'' \<mapsto> JNum 300])), (2, Toggle_eye_tracking)]
          initial_state) = Some Up"
proof -
  have h: "\<forall>e \<in> set [(1::real, Eye_data (Some [''x'' \<mapsto> JNum 960, ''y'' \<mapsto> JNum 300])), (2, Toggle_eye_tracking)].
       \<not> is_control (snd e)"
    by simp
  have u: "get_direction_from_coords 960 300 = Some Up"
    by (simp add: get_direction_from_coords_def center_values DEAD_ZONE_def)
  from current_direction_last_write
         [of no_fault "[(1, Eye_data (Some [''x'' \<mapsto> JNum 960, ''y'' \<mapsto> JNum 300])), (2, Toggle_eye_tracking)]"]
       h
  have "current_direction
       (exec no_fault [(1, Eye_data (Some [''x'' \<mapsto> JNum 960, ''y'' \<mapsto> JNum 300])), (2, Toggle_eye_tracking)]
          initial_state)
        = classified (last_gaze_point None
            [(1, Eye_data (Some [''x'' \<mapsto> JNum 960, ''y'' \<mapsto> JNum 300])), (2, Toggle_eye_tracking)])"
    by blast
  also have "\<dots> = Some Up"
    by (simp add: classified_def dict_get_def u)
  finally show ?thesis by simp
qed

section \<open>The last-update field of GET /status\<close>

lemma step_last_eye_update:
  "last_eye_update (step F e s) =
     (if is_eye_data (snd e) \<and> current_direction (step F e s) \<noteq> current_direction s
      then fst e else last_eye_update s)"
proof (cases e)
  case (Pair t r)
  show ?thesis
  proof (cases r)
    case (Eye_data req)
    show ?thesis
    proof (cases "gaze_point (Eye_data req)")
      case None
      with Pair Eye_data show ?thesis by (simp add: receive_eye_data_no_point)
    next
      case (Some p)
      obtain a b where "p = (a, b)" by (cases p)
      with Some Pair Eye_data show ?thesis by (simp add: receive_eye_data_point)
    qed
  next
    case (Control req)
    with Pair show ?thesis by (simp add: control_last_eye_update)
  next
    case Toggle_eye_tracking
    with Pair show ?thesis by (simp add: toggle_eye_tracking_def Let_def)
  next
    case Status
    with Pair show ?thesis by simp
  next
    case (Game_thread p)
    with Pair show ?thesis by simp
  qed
qed

lemma direction_changes_subset: "set (direction_changes F s es) \<subseteq> set es"
  by (induction es arbitrary: s) auto

lemma exec_last_eye_update:
  "last_eye_update (exec F es s) =
     (case eye_changes F s es of [] \<Rightarrow> last_eye_update s | _ \<Rightarrow> fst (last (eye_changes F s es)))"
proof (induction es arbitrary: s)
  case Nil
  then show ?case by (simp add: eye_changes_def)
next
  case (Cons e es)
  show ?case
  proof (cases "eye_changes F (step F e s) es")
    case Nil
    with Cons.IH [of "step F e s"] show ?thesis
      by (simp add: eye_changes_def step_last_eye_update)
  next
    case (Cons c cs)
    with Cons.IH [of "step F e s"] show ?thesis
      by (simp add: eye_changes_def)
  qed
qed

text \<open>
  Claim C8, as stated, fails: a manual press changes the direction without touching
  \<open>last_eye_update\<close>. From the initial state, a manual press of up at time 100 changes
  the direction; GET /status at time 105 reports \<open>last_update = null\<close>, not 5 seconds.
\<close>

theorem manual_press_leaves_last_update_null:
  "last_update (status 105
     (exec no_fault [(100, Control (Some [''action'' \<mapsto> JStr ''press'', ''direction'' \<mapsto> JStr ''up'']))]
        initial_state)) = None
   \<and> seconds_since_last 105
       (direction_changes no_fault initial_state
          [(100, Control (Some [''action'' \<mapsto> JStr ''press'', ''direction'' \<mapsto> JStr ''up'']))])
      = Some 5"
  by (simp add: status_def seconds_since_last_def control_direction control_last_eye_update
      initial_state_def known_direction_def)

text \<open>
  Claim C8, amended. With positive clock readings, GET /status returns \<open>last_update\<close>
  equal to the number of seconds elapsed since the most recent POST /eye_data request
  that changed the current direction, and null if no POST /eye_data request has changed
  it since process start. Direction changes made through POST /control do not count.
\<close>

theorem last_update_since_eye_change:
  assumes "\<forall>e \<in> set es. 0 < fst e"
  shows "last_update (status now (exec F es initial_state))
           = seconds_since_last now (eye_changes F initial_state es)"
proof (cases "eye_changes F initial_state es")
  case Nil
  then show ?thesis
    using exec_last_eye_update [of F es initial_state]
    by (simp add: status_def seconds_since_last_def initial_state_def)
next
  case (Cons c cs)
  then have "last (eye_changes F initial_state es) \<in> set (eye_changes F initial_state es)"
    by (metis last_in_set list.distinct(1))
  then have "last (eye_changes F initial_state es) \<in> set es"
    using direction_changes_subset [of F initial_state es] by (auto simp add: eye_changes_def)
  with assms have "0 < fst (last (eye_changes F initial_state es))" by blast
  with Cons show ?thesis
    using exec_last_eye_update [of F es initial_state]
    by (simp add: status_def seconds_since_last_def)
qed

theorem last_update_since_eye_change_witness:
  "0 < fst (100::real, Eye_data (Some [''x'' \<mapsto> JNum 1200, ''y'' \<mapsto> JNum 540]))
   \<and> last_update (status 205
        (exec no_fault
           [(100, Eye_data (Some [''x'' \<mapsto> JNum 1200, ''y'' \<mapsto> JNum 540])),
            (200, Control (Some [''action'' \<mapsto> JStr ''press'', ''direction'' \<mapsto> JStr ''up'']))]
           initial_state))
      = Some 105"
proof -
  have h: "\<forall>e \<in> set [(100::real, Eye_data (Some [''x'' \<mapsto> JNum 1200, ''y'' \<mapsto> JNum 540])),
                 (200, Control (Some [''action'' \<mapsto> JStr ''press'', ''direction'' \<mapsto> JStr ''up'']))].
       0 < fst e"
    by simp
  have r: "get_direction_from_coords 1200 540 = Some Right"
    by (simp add: get_direction_from_coords_def center_values DEAD_ZONE_def)
  have c: "eye_changes no_fault initial_state
             [(100, Eye_data (Some [''x'' \<mapsto> JNum 1200, ''y'' \<mapsto> JNum 540])),
              (200, Control (Some [''action'' \<mapsto> JStr ''press'', ''direction'' \<mapsto> JStr ''up'']))]
           = [(100, Eye_data (Some [''x'' \<mapsto> JNum 1200, ''y'' \<mapsto> JNum 540]))]"
    by (simp add: eye_changes_def step_direction dict_get_def r initial_state_def known_direction_def
        del: step.simps)
  from last_update_since_eye_change [OF h, of 205 no_fault] c show ?thesis
    by (simp add: seconds_since_last_def)
qed

section \<open>Emulator failure\<close>

text \<open>
  An iteration in which an emulator call raises ends the loop, and a thread that leaves
  \<open>run_game\<close> after the constructor returned has gone through the \<open>stop()\<close> call of
  the \<open>finally\<close> clause. The global \<open>pyboy_instance\<close> is then set and stays set,
  whatever made the thread leave.
\<close>

lemma game_loop_ends_at_fault:
  "loop_iteration F (rds i) h = (False, h') \<Longrightarrow> game_loop F rds (Suc n) i h = Some h'"
  by simp

lemma run_game_exit_calls_stop:
  "run_game F True rds fuel = Some (Some h) \<Longrightarrow> \<exists>h'. h = snd (emu_seq F [Stop] h')"
  by (auto simp add: run_game_def split: prod.splits bool.splits option.splits)

lemma run_game_exit_keeps_instance:
  "run_game F True rds fuel = Some inst \<Longrightarrow> inst \<noteq> None"
  by (auto simp add: run_game_def split: prod.splits bool.splits option.splits)

lemma game_loop_tick_fails_idle:
  "game_loop tick_fails (\<lambda>i k. initial_state) (Suc n) 0 h = Some h"
  by (simp add: loop_iteration_def loop_calls_def initial_state_def tick_fails_def)

text \<open>
  Claim C5 says that after an exception of the emulator the loop terminates, the
  emulator is stopped, and GET /status then reports \<open>game_running = false\<close>. The code
  does the first two and not the last. With an emulator whose \<open>tick\<close> raises, and
  tracking disabled, the first iteration raises: the loop ends, \<open>finally\<close> calls
  \<open>stop()\<close>, and the thread exits with \<open>pyboy_instance\<close> still holding the stopped
  emulator, so that GET /status afterwards reports \<open>game_running = true\<close>.
\<close>

theorem game_running_after_crash:
  "run_game tick_fails True (\<lambda>i k. initial_state) (Suc n) = Some (Some [Set_emulation_speed 1, Stop])
   \<and> game_running
       (status now (exec F [(t, Game_thread (Some [Set_emulation_speed 1, Stop]))] initial_state))
     = True"
  by (simp add: run_game_def game_loop_tick_fails_idle status_def tick_fails_def
      del: game_loop.simps)

end
